theory Spec2Isabelle
  imports Main "HOL-Library.Sublist"
begin

section \<open>The ERC1155 diagnostic reporter\<close>

text \<open>
  The script \<^verbatim>\<open>final_erc1155_analysis.py\<close> binds one dictionary literal,
  \<^verbatim>\<open>erc1155_data\<close>, and ends with
  \<^verbatim>\<open>print(json.dumps(erc1155_data, indent=2))\<close>.
  The development below embeds the Python values the literal is built from, the
  encoder behind \<^verbatim>\<open>json.dumps\<close>, the decoder behind \<^verbatim>\<open>json.loads\<close>
  (the parser the round-trip property speaks about), \<^verbatim>\<open>print\<close> and the run of
  the script as a function on the state of the process.
\<close>

subsection \<open>Characters and decimal numerals\<close>

definition newline :: char where
  "newline = CHR 0x0A"

definition dquote :: char where
  "dquote = CHR 0x22"

definition backslash :: char where
  "backslash = CHR 0x5C"

definition digit_char :: "nat \<Rightarrow> char" where
  "digit_char d = ''0123456789abcdef'' ! d"

text \<open>\<^verbatim>\<open>str(n)\<close> for a non-negative integer: its decimal digits, most significant first.\<close>

fun digits_acc :: "nat \<Rightarrow> string \<Rightarrow> string" where
  "digits_acc n acc =
     (if n < 10 then digit_char n # acc
      else digits_acc (n div 10) (digit_char (n mod 10) # acc))"

declare digits_acc.simps [simp del]

definition nat_str :: "nat \<Rightarrow> string" where
  "nat_str n = digits_acc n []"

text \<open>\<^verbatim>\<open>int.__repr__\<close>: a minus sign for a negative number, then the digits.\<close>

definition int_repr :: "int \<Rightarrow> string" where
  "int_repr i = (if i < 0 then CHR ''-'' # nat_str (nat (- i)) else nat_str (nat i))"

subsection \<open>Floats: IEEE 754 binary64\<close>

text \<open>
  A Python float is a binary64 number. \<open>Finite s m e\<close> is \<open>(-1)\<^sup>s \<sqdot> m \<sqdot> 2\<^sup>e\<close> in
  the unique form with \<open>m < 2\<^sup>5\<^sup>3\<close>, \<open>-1074 \<le> e \<le> 971\<close> and \<open>2\<^sup>5\<^sup>2 \<le> m\<close> unless
  \<open>e = -1074\<close> (zero and the subnormal numbers).
\<close>

datatype pyfloat = Finite bool nat int | Infinity bool | NaN

text \<open>\<^verbatim>\<open>int.bit_length\<close>.\<close>

fun bit_length :: "nat \<Rightarrow> nat" where
  "bit_length n = (if n = 0 then 0 else Suc (bit_length (n div 2)))"

declare bit_length.simps [simp del]

text \<open>The integer nearest to \<open>a / b\<close>, a tie going to the even one.\<close>

definition round_half_even :: "nat \<Rightarrow> nat \<Rightarrow> nat" where
  "round_half_even a b =
     (let q = a div b; r = a mod b
      in if 2 * r < b then q
         else if b < 2 * r then q + 1
         else if even q then q else q + 1)"

text \<open>\<open>a / b\<close> times \<open>2\<^sup>-\<^sup>e\<close>, as a fraction again.\<close>

definition shift2 :: "nat \<Rightarrow> nat \<Rightarrow> int \<Rightarrow> nat \<times> nat" where
  "shift2 a b e = (if 0 \<le> e then (a, b * 2 ^ nat e) else (a * 2 ^ nat (- e), b))"

text \<open>
  The binary64 number nearest to the fraction \<open>a / b\<close> (\<open>0 < b\<close>), ties to even:
  what the conversion of a decimal numeral to a float computes. \<open>e0\<close> is the binary
  exponent of \<open>a / b\<close>, \<open>e\<close> the exponent of the last place kept.
\<close>

definition binary64_round :: "bool \<Rightarrow> nat \<Rightarrow> nat \<Rightarrow> pyfloat" where
  "binary64_round s a b =
     (if a = 0 then Finite s 0 (- 1074)
      else
        let l = int (bit_length a) - int (bit_length b);
            (a0, b0) = shift2 a b l;
            e0 = (if b0 \<le> a0 then l else l - 1);
            e = max (e0 - 52) (- 1074);
            (a1, b1) = shift2 a b e;
            m = round_half_even a1 b1;
            (m', e') = (if m = 2 ^ 53 then (2 ^ 52, e + 1) else (m, e))
        in if 971 < e' then Infinity s else Finite s m' e')"

text \<open>The float nearest to \<open>(-1)\<^sup>s \<sqdot> n \<sqdot> 10\<^sup>x\<close>: a float literal, and \<^verbatim>\<open>float(str)\<close>.\<close>

definition decimal_to_float :: "bool \<Rightarrow> nat \<Rightarrow> int \<Rightarrow> pyfloat" where
  "decimal_to_float s n x =
     (if 0 \<le> x then binary64_round s (n * 10 ^ nat x) 1
      else binary64_round s n (10 ^ nat (- x)))"

text \<open>The number of decimal digits of \<open>n\<close>.\<close>

fun ndigits :: "nat \<Rightarrow> nat" where
  "ndigits n = (if n < 10 then 1 else Suc (ndigits (n div 10)))"

declare ndigits.simps [simp del]

text \<open>For \<open>0 < a < b\<close>, the least \<open>k\<close> with \<open>b \<le> a \<sqdot> 10\<^sup>k\<close>.\<close>

function leading_zeros :: "nat \<Rightarrow> nat \<Rightarrow> nat" where
  "leading_zeros a b = (if a = 0 \<or> b \<le> a then 0 else Suc (leading_zeros (a * 10) b))"
  by pat_completeness auto
termination
  by (relation "measure (\<lambda>(a, b). b - a)") auto

declare leading_zeros.simps [simp del]

text \<open>The decimal exponent of \<open>a / b\<close>: the \<open>d\<close> with \<open>10\<^sup>d \<le> a / b < 10\<^sup>d\<^sup>+\<^sup>1\<close>.\<close>

definition decimal_exponent :: "nat \<Rightarrow> nat \<Rightarrow> int" where
  "decimal_exponent a b =
     (if b \<le> a then int (ndigits (a div b)) - 1 else - int (leading_zeros a b))"

text \<open>\<open>a / b\<close> times \<open>10\<^sup>-\<^sup>p\<close>, as a fraction again.\<close>

definition shift10 :: "nat \<Rightarrow> nat \<Rightarrow> int \<Rightarrow> nat \<times> nat" where
  "shift10 a b p = (if 0 \<le> p then (a, b * 10 ^ nat p) else (a * 10 ^ nat (- p), b))"

text \<open>
  \<^verbatim>\<open>float.__repr__\<close> prints the shortest decimal numeral that converts back to the
  same float. The search tries \<open>n = 1, 2, \<dots>\<close> significant digits: of the two
  \<open>n\<close>-digit decimals around \<open>a / b\<close> the nearer one first, then the other; seventeen
  digits always suffice, which is where the search stops. The result is the digits as a
  number \<open>c\<close> and the power of ten \<open>p\<close> of the last digit.
\<close>

function shortest_digits :: "nat \<Rightarrow> nat \<Rightarrow> nat \<Rightarrow> int \<Rightarrow> pyfloat \<Rightarrow> nat \<times> int" where
  "shortest_digits n a b d x =
     (let p = d - int n + 1;
          (a1, b1) = shift10 a b p;
          c1 = round_half_even a1 b1;
          lo = a1 div b1;
          c2 = (if c1 = lo then lo + 1 else lo)
      in if 17 \<le> n \<or> decimal_to_float False c1 p = x then (c1, p)
         else if decimal_to_float False c2 p = x then (c2, p)
         else shortest_digits (Suc n) a b d x)"
  by pat_completeness auto
termination
  by (relation "measure (\<lambda>(n, a, b, d, x). 17 - n)") auto

declare shortest_digits.simps [simp del]

fun strip_zeros :: "nat \<Rightarrow> int \<Rightarrow> nat \<times> int" where
  "strip_zeros c p =
     (if c \<noteq> 0 \<and> c mod 10 = 0 then strip_zeros (c div 10) (p + 1) else (c, p))"

declare strip_zeros.simps [simp del]

text \<open>
  The layout of \<^verbatim>\<open>repr\<close>: \<open>ds\<close> are the significant digits and the decimal
  point stands after the first \<open>decpt\<close> of them. Exponent notation is used when
  \<open>decpt \<le> -4\<close> or \<open>16 < decpt\<close>; a float that is a whole number gets \<open>.0\<close>.
\<close>

definition format_repr :: "string \<Rightarrow> int \<Rightarrow> string" where
  "format_repr ds decpt =
     (if decpt \<le> - 4 \<or> 16 < decpt then
        (let ex = decpt - 1; es = nat_str (nat \<bar>ex\<bar>)
         in hd ds # (if tl ds = [] then [] else CHR ''.'' # tl ds) @ ''e''
            @ (if ex < 0 then ''-'' else ''+'')
            @ (if length es < 2 then CHR ''0'' # es else es))
      else if decpt \<le> 0 then ''0.'' @ replicate (nat (- decpt)) CHR ''0'' @ ds
      else if int (length ds) \<le> decpt
        then ds @ replicate (nat decpt - length ds) CHR ''0'' @ ''.0''
      else take (nat decpt) ds @ CHR ''.'' # drop (nat decpt) ds)"

definition float_repr :: "pyfloat \<Rightarrow> string" where
  "float_repr x =
     (case x of
        NaN \<Rightarrow> ''nan''
      | Infinity s \<Rightarrow> (if s then ''-inf'' else ''inf'')
      | Finite s m e \<Rightarrow>
          (if s then ''-'' else []) @
          (if m = 0 then ''0.0''
           else
             let (a, b) = shift2 m 1 (- e);
                 (c0, p0) = shortest_digits 1 a b (decimal_exponent a b) (Finite False m e);
                 (c, p) = strip_zeros c0 p0;
                 ds = nat_str c
             in format_repr ds (int (length ds) + p)))"

subsection \<open>Python values\<close>

text \<open>
  The values a Python program can hand to \<^verbatim>\<open>json.dumps\<close>. A \<^verbatim>\<open>str\<close> is a
  sequence of code points, here those below 256 (the literal of the script is plain
  ASCII). A \<^verbatim>\<open>dict\<close> keeps its items in insertion order (the language promises it
  from Python 3.7 on), so it is the list of its items, in that order, with distinct keys. \<open>PyObject c\<close> stands for an object of any
  other class \<open>c\<close> (a set, bytes, a user-defined class), which the encoder rejects.
\<close>

datatype py =
    PyNone
  | PyBool bool
  | PyInt int
  | PyFloat pyfloat
  | PyStr string
  | PyList "py list"
  | PyTuple "py list"
  | PyDict "(py \<times> py) list"
  | PyObject string

datatype py_error =
    TypeError string
  | KeyError string
  | JSONDecodeError string
  | RecursionError
  | OutsideModel string

subsection \<open>The encoder: \<^verbatim>\<open>json.dumps\<close>\<close>

text \<open>
  \<^verbatim>\<open>json.dumps(obj, indent=2)\<close> leaves every other option at its default:
  \<^verbatim>\<open>ensure_ascii=True\<close>, \<^verbatim>\<open>allow_nan=True\<close>, \<^verbatim>\<open>sort_keys=False\<close>,
  \<^verbatim>\<open>skipkeys=False\<close>, no \<^verbatim>\<open>default\<close> hook. With an indent the item separator is a
  comma and the key separator a colon and a space; without one the item separator is a
  comma and a space.
\<close>

text \<open>
  \<^verbatim>\<open>encode_basestring_ascii\<close>: the string between double quotes; a backslash, a
  double quote and every character outside the range from space to tilde are escaped,
  by the table \<^verbatim>\<open>ESCAPE_DCT\<close> where it has an entry and as \<^verbatim>\<open>\uXXXX\<close> otherwise.
\<close>

definition needs_escape :: "char \<Rightarrow> bool" where
  "needs_escape c =
     (c = backslash \<or> c = dquote \<or> (of_char c :: nat) < 32 \<or> 126 < (of_char c :: nat))"

definition ESCAPE_DCT :: "char \<Rightarrow> string option" where
  "ESCAPE_DCT c =
     (if c = backslash then Some [backslash, backslash]
      else if c = dquote then Some [backslash, dquote]
      else if c = CHR 0x08 then Some [backslash, CHR ''b'']
      else if c = CHR 0x0C then Some [backslash, CHR ''f'']
      else if c = CHR 0x0A then Some [backslash, CHR ''n'']
      else if c = CHR 0x0D then Some [backslash, CHR ''r'']
      else if c = CHR 0x09 then Some [backslash, CHR ''t'']
      else None)"

definition hex4 :: "nat \<Rightarrow> string" where
  "hex4 n =
     [digit_char (n div 4096 mod 16), digit_char (n div 256 mod 16),
      digit_char (n div 16 mod 16), digit_char (n mod 16)]"

definition escape_char :: "char \<Rightarrow> string" where
  "escape_char c =
     (if needs_escape c
      then (case ESCAPE_DCT c of
              Some s \<Rightarrow> s
            | None \<Rightarrow> backslash # CHR ''u'' # hex4 (of_char c))
      else [c])"

definition encode_basestring_ascii :: "string \<Rightarrow> string" where
  "encode_basestring_ascii s = dquote # concat (map escape_char s) @ [dquote]"

text \<open>
  \<^verbatim>\<open>floatstr\<close>: \<^verbatim>\<open>float.__repr__\<close>, but the three values JSON has no numeral
  for are written the JavaScript way.
\<close>

definition floatstr :: "pyfloat \<Rightarrow> string" where
  "floatstr x =
     (case x of
        NaN \<Rightarrow> ''NaN''
      | Infinity s \<Rightarrow> (if s then ''-Infinity'' else ''Infinity'')
      | Finite s m e \<Rightarrow> float_repr x)"

text \<open>A key of a dictionary: a string as it is, a number or a constant by its JSON text.\<close>

fun key_str :: "py \<Rightarrow> py_error + string" where
  "key_str (PyStr s) = Inr s"
| "key_str (PyFloat x) = Inr (floatstr x)"
| "key_str (PyBool b) = Inr (if b then ''true'' else ''false'')"
| "key_str PyNone = Inr ''null''"
| "key_str (PyInt i) = Inr (int_repr i)"
| "key_str (PyList xs) =
     Inl (TypeError ''keys must be str, int, float, bool or None, not list'')"
| "key_str (PyTuple xs) =
     Inl (TypeError ''keys must be str, int, float, bool or None, not tuple'')"
| "key_str (PyDict kvs) =
     Inl (TypeError ''keys must be str, int, float, bool or None, not dict'')"
| "key_str (PyObject c) =
     Inl (TypeError (''keys must be str, int, float, bool or None, not '' @ c))"

text \<open>\<^verbatim>\<open>sep.join(chunks)\<close>.\<close>

fun join :: "string \<Rightarrow> string list \<Rightarrow> string" where
  "join sep [] = []"
| "join sep [x] = x"
| "join sep (x # y # ys) = x @ sep @ join sep (y # ys)"

text \<open>A line break and the indentation of nesting level \<open>lvl\<close>; nothing without an indent.\<close>

definition newline_indent :: "nat option \<Rightarrow> nat \<Rightarrow> string" where
  "newline_indent indent lvl =
     (case indent of None \<Rightarrow> [] | Some n \<Rightarrow> newline # replicate (n * lvl) CHR '' '')"

definition item_separator :: "nat option \<Rightarrow> string" where
  "item_separator indent = (case indent of None \<Rightarrow> '', '' | Some n \<Rightarrow> '','')"

definition key_separator :: string where
  "key_separator = '': ''"

text \<open>The brackets around the encoded items of a non-empty list or dictionary.\<close>

definition bracketed :: "nat option \<Rightarrow> nat \<Rightarrow> char \<Rightarrow> char \<Rightarrow> string list \<Rightarrow> string" where
  "bracketed indent lvl l r chunks =
     l # newline_indent indent (Suc lvl)
       @ join (item_separator indent @ newline_indent indent (Suc lvl)) chunks
       @ newline_indent indent lvl @ [r]"

text \<open>
  \<^verbatim>\<open>_iterencode\<close>, \<^verbatim>\<open>_iterencode_list\<close> and \<^verbatim>\<open>_iterencode_dict\<close> at nesting
  level \<open>lvl\<close>. The Python generators yield the chunks of the text and raise at the
  first value they cannot encode; here each function returns the text, or the error.
  The two functions on lists return the encoded items, at the level of the items.
\<close>

fun iterencode :: "nat option \<Rightarrow> nat \<Rightarrow> py \<Rightarrow> py_error + string"
  and iterencode_list :: "nat option \<Rightarrow> nat \<Rightarrow> py list \<Rightarrow> py_error + string list"
  and iterencode_dict :: "nat option \<Rightarrow> nat \<Rightarrow> (py \<times> py) list \<Rightarrow> py_error + string list"
where
  "iterencode indent lvl (PyStr s) = Inr (encode_basestring_ascii s)"
| "iterencode indent lvl PyNone = Inr ''null''"
| "iterencode indent lvl (PyBool b) = Inr (if b then ''true'' else ''false'')"
| "iterencode indent lvl (PyInt i) = Inr (int_repr i)"
| "iterencode indent lvl (PyFloat x) = Inr (floatstr x)"
| "iterencode indent lvl (PyList xs) =
     (if xs = [] then Inr ''[]''
      else case iterencode_list indent (Suc lvl) xs of
             Inl e \<Rightarrow> Inl e
           | Inr chunks \<Rightarrow> Inr (bracketed indent lvl CHR ''['' CHR '']'' chunks))"
| "iterencode indent lvl (PyTuple xs) =
     (if xs = [] then Inr ''[]''
      else case iterencode_list indent (Suc lvl) xs of
             Inl e \<Rightarrow> Inl e
           | Inr chunks \<Rightarrow> Inr (bracketed indent lvl CHR ''['' CHR '']'' chunks))"
| "iterencode indent lvl (PyDict kvs) =
     (if kvs = [] then Inr ''{}''
      else case iterencode_dict indent (Suc lvl) kvs of
             Inl e \<Rightarrow> Inl e
           | Inr chunks \<Rightarrow> Inr (bracketed indent lvl CHR ''{'' CHR ''}'' chunks))"
| "iterencode indent lvl (PyObject c) =
     Inl (TypeError (''Object of type '' @ c @ '' is not JSON serializable''))"
| "iterencode_list indent lvl [] = Inr []"
| "iterencode_list indent lvl (x # xs) =
     (case iterencode indent lvl x of
        Inl e \<Rightarrow> Inl e
      | Inr c \<Rightarrow>
          (case iterencode_list indent lvl xs of
             Inl e \<Rightarrow> Inl e
           | Inr cs \<Rightarrow> Inr (c # cs)))"
| "iterencode_dict indent lvl [] = Inr []"
| "iterencode_dict indent lvl ((k, v) # kvs) =
     (case key_str k of
        Inl e \<Rightarrow> Inl e
      | Inr ks \<Rightarrow>
          (case iterencode indent lvl v of
             Inl e \<Rightarrow> Inl e
           | Inr c \<Rightarrow>
               (case iterencode_dict indent lvl kvs of
                  Inl e \<Rightarrow> Inl e
                | Inr cs \<Rightarrow> Inr ((encode_basestring_ascii ks @ key_separator @ c) # cs))))"

definition dumps :: "py \<Rightarrow> nat option \<Rightarrow> py_error + string" where
  "dumps obj indent = iterencode indent 0 obj"

text \<open>
  The values the encoder accepts: no object of a foreign class anywhere, and no key
  that is a list, a tuple, a dictionary or such an object. A value is a finite tree,
  so it cannot hold a reference to itself.
\<close>

fun serializable :: "py \<Rightarrow> bool"
  and serializable_list :: "py list \<Rightarrow> bool"
  and serializable_dict :: "(py \<times> py) list \<Rightarrow> bool"
where
  "serializable (PyObject c) = False"
| "serializable (PyList xs) = serializable_list xs"
| "serializable (PyTuple xs) = serializable_list xs"
| "serializable (PyDict kvs) = serializable_dict kvs"
| "serializable PyNone = True"
| "serializable (PyBool b) = True"
| "serializable (PyInt i) = True"
| "serializable (PyFloat x) = True"
| "serializable (PyStr s) = True"
| "serializable_list [] = True"
| "serializable_list (x # xs) = (serializable x \<and> serializable_list xs)"
| "serializable_dict [] = True"
| "serializable_dict ((k, v) # kvs) =
     ((case key_str k of Inl e \<Rightarrow> False | Inr s \<Rightarrow> True)
      \<and> serializable v \<and> serializable_dict kvs)"

subsection \<open>The decoder: \<^verbatim>\<open>json.loads\<close>\<close>

text \<open>
  The script never parses; the round-trip property does, with the decoder of the same
  module. \<^verbatim>\<open>json.loads(s)\<close> skips white space, scans one value with
  \<^verbatim>\<open>scan_once\<close>, skips white space again and rejects anything left over. The
  functions below follow \<^verbatim>\<open>json.scanner\<close> and \<^verbatim>\<open>json.decoder\<close>; they return the
  value and the rest of the input where the Python code returns the value and the end
  index, and they keep the words of the error but not its position.
\<close>

definition is_whitespace :: "char \<Rightarrow> bool" where
  "is_whitespace c = (c = CHR '' '' \<or> c = CHR 0x09 \<or> c = CHR 0x0A \<or> c = CHR 0x0D)"

definition skip_ws :: "string \<Rightarrow> string" where
  "skip_ws s = dropWhile is_whitespace s"

definition is_digit :: "char \<Rightarrow> bool" where
  "is_digit c = (48 \<le> (of_char c :: nat) \<and> (of_char c :: nat) \<le> 57)"

text \<open>\<^verbatim>\<open>int(ds)\<close> for a string of decimal digits.\<close>

definition digits_value :: "string \<Rightarrow> nat" where
  "digits_value ds = foldl (\<lambda>n c. 10 * n + (of_char c - 48)) 0 ds"

definition hex_value :: "char \<Rightarrow> nat option" where
  "hex_value c =
     (let n = (of_char c :: nat)
      in if 48 \<le> n \<and> n \<le> 57 then Some (n - 48)
         else if 97 \<le> n \<and> n \<le> 102 then Some (n - 87)
         else if 65 \<le> n \<and> n \<le> 70 then Some (n - 55)
         else None)"

text \<open>The four hexadecimal digits of a \<^verbatim>\<open>\uXXXX\<close> escape.\<close>

definition decode_uXXXX :: "string \<Rightarrow> nat option" where
  "decode_uXXXX s =
     (case map hex_value (take 4 s) of
        [Some a, Some b, Some c, Some d] \<Rightarrow> Some (((a * 16 + b) * 16 + c) * 16 + d)
      | _ \<Rightarrow> None)"

text \<open>The table \<^verbatim>\<open>BACKSLASH\<close> of the one-letter escapes.\<close>

definition BACKSLASH :: "char \<Rightarrow> char option" where
  "BACKSLASH c =
     (if c = dquote then Some dquote
      else if c = backslash then Some backslash
      else if c = CHR ''/'' then Some CHR ''/''
      else if c = CHR ''b'' then Some (CHR 0x08)
      else if c = CHR ''f'' then Some (CHR 0x0C)
      else if c = CHR ''n'' then Some (CHR 0x0A)
      else if c = CHR ''r'' then Some (CHR 0x0D)
      else if c = CHR ''t'' then Some (CHR 0x09)
      else None)"

text \<open>
  \<^verbatim>\<open>scanstring\<close> (strict), from the character after the opening quote: the
  decoded string and the input after the closing quote. An escape of a code point
  above 255 has no counterpart among the strings modelled here and is reported as
  such; the decoder of Python accepts it.
\<close>

fun scanstring :: "string \<Rightarrow> py_error + string \<times> string" where
  "scanstring [] = Inl (JSONDecodeError ''Unterminated string starting at'')"
| "scanstring (c # cs) =
     (if c = dquote then Inr ([], cs)
      else if c = backslash then
        (case cs of
           [] \<Rightarrow> Inl (JSONDecodeError ''Unterminated string starting at'')
         | e # es \<Rightarrow>
             if e = CHR ''u'' then
               (case decode_uXXXX es of
                  None \<Rightarrow> Inl (JSONDecodeError ''Invalid unicode escape'')
                | Some n \<Rightarrow>
                    if 256 \<le> n then Inl (OutsideModel ''code point above 255'')
                    else (case scanstring (drop 4 es) of
                            Inl err \<Rightarrow> Inl err
                          | Inr (s, rest) \<Rightarrow> Inr (char_of n # s, rest)))
             else
               (case BACKSLASH e of
                  None \<Rightarrow> Inl (JSONDecodeError ''Invalid escape'')
                | Some ch \<Rightarrow>
                    (case scanstring es of
                       Inl err \<Rightarrow> Inl err
                     | Inr (s, rest) \<Rightarrow> Inr (ch # s, rest))))
      else if (of_char c :: nat) < 32 then
        Inl (JSONDecodeError ''Invalid control character at'')
      else (case scanstring cs of
              Inl err \<Rightarrow> Inl err
            | Inr (s, rest) \<Rightarrow> Inr (c # s, rest)))"

text \<open>
  The parts of \<^verbatim>\<open>NUMBER_RE\<close>: an optional minus sign; the integer part, a single
  zero or a digit from 1 to 9 followed by digits; an optional fraction, a point and
  at least one digit; an optional exponent, \<^verbatim>\<open>e\<close> or \<^verbatim>\<open>E\<close>, an optional sign and
  at least one digit. Each function returns what it matched and the rest.
\<close>

definition match_sign :: "string \<Rightarrow> bool \<times> string" where
  "match_sign s =
     (case s of [] \<Rightarrow> (False, s) | c # cs \<Rightarrow> if c = CHR ''-'' then (True, cs) else (False, s))"

definition match_integer :: "string \<Rightarrow> string \<times> string" where
  "match_integer s =
     (case s of
        [] \<Rightarrow> ([], s)
      | c # cs \<Rightarrow>
          if c = CHR ''0'' then ([c], cs)
          else (takeWhile is_digit s, dropWhile is_digit s))"

definition match_frac :: "string \<Rightarrow> string \<times> string" where
  "match_frac s =
     (case s of
        [] \<Rightarrow> ([], s)
      | c # cs \<Rightarrow>
          if c = CHR ''.'' \<and> takeWhile is_digit cs \<noteq> []
          then (takeWhile is_digit cs, dropWhile is_digit cs)
          else ([], s))"

definition match_exp :: "string \<Rightarrow> int option \<times> string" where
  "match_exp s =
     (case s of
        [] \<Rightarrow> (None, s)
      | c # cs \<Rightarrow>
          if c = CHR ''e'' \<or> c = CHR ''E'' then
            (let (neg, ds) =
                   (case cs of
                      [] \<Rightarrow> (False, cs)
                    | d # ds' \<Rightarrow>
                        if d = CHR ''-'' then (True, ds')
                        else if d = CHR ''+'' then (False, ds')
                        else (False, cs))
             in if takeWhile is_digit ds = [] then (None, s)
                else (Some ((if neg then - 1 else 1) * int (digits_value (takeWhile is_digit ds))),
                      dropWhile is_digit ds))
          else (None, s))"

text \<open>
  A match of \<^verbatim>\<open>NUMBER_RE\<close> at the start of the input: without fraction and
  exponent the number is \<^verbatim>\<open>int(integer)\<close>, otherwise
  \<^verbatim>\<open>float(integer + frac + exp)\<close>.
\<close>

definition match_number :: "string \<Rightarrow> (py \<times> string) option" where
  "match_number s =
     (let (neg, s1) = match_sign s;
          (ip, s2) = match_integer s1;
          (frac, s3) = match_frac s2;
          (ex, s4) = match_exp s3
      in if ip = [] then None
         else if frac = [] \<and> ex = None
           then Some (PyInt ((if neg then - 1 else 1) * int (digits_value ip)), s4)
         else Some (PyFloat (decimal_to_float neg (digits_value (ip @ frac))
                               ((case ex of None \<Rightarrow> 0 | Some x \<Rightarrow> x) - int (length frac))),
                    s4))"

text \<open>
  \<^verbatim>\<open>dict(pairs)\<close>: the pairs are stored one after the other; a key that is there
  already keeps its place and takes the new value.
\<close>

fun dict_setitem :: "(py \<times> py) list \<Rightarrow> py \<Rightarrow> py \<Rightarrow> (py \<times> py) list" where
  "dict_setitem [] k v = [(k, v)]"
| "dict_setitem ((k', v') # kvs) k v =
     (if k' = k then (k', v) # kvs else (k', v') # dict_setitem kvs k v)"

definition dict :: "(py \<times> py) list \<Rightarrow> py" where
  "dict pairs = PyDict (foldl (\<lambda>d (k, v). dict_setitem d k v) [] pairs)"

text \<open>
  \<^verbatim>\<open>scan_once\<close> at the first character of a value, \<^verbatim>\<open>JSONObject\<close> after the
  opening quote of a key, with the pairs read so far, and \<^verbatim>\<open>JSONArray\<close> at the
  first character of an item, with the items read so far. The first argument bounds the
  number of calls, since the recursion follows the input and not a datatype; when it
  runs out the result is \<open>RecursionError\<close>. \<^verbatim>\<open>loads\<close> starts with one more than
  the length of the input.
\<close>

fun scan_once :: "nat \<Rightarrow> string \<Rightarrow> py_error + py \<times> string"
  and JSONObject :: "nat \<Rightarrow> string \<Rightarrow> (py \<times> py) list \<Rightarrow> py_error + py \<times> string"
  and JSONArray :: "nat \<Rightarrow> string \<Rightarrow> py list \<Rightarrow> py_error + py \<times> string"
where
  "scan_once 0 s = Inl RecursionError"
| "scan_once (Suc n) [] = Inl (JSONDecodeError ''Expecting value'')"
| "scan_once (Suc n) (c # cs) =
     (if c = dquote then
        (case scanstring cs of
           Inl e \<Rightarrow> Inl e
         | Inr (str, rest) \<Rightarrow> Inr (PyStr str, rest))
      else if c = CHR ''{'' then
        (case skip_ws cs of
           [] \<Rightarrow> Inl (JSONDecodeError ''Expecting property name enclosed in double quotes'')
         | d # ds \<Rightarrow>
             if d = CHR ''}'' then Inr (PyDict [], ds)
             else if d = dquote then JSONObject n ds []
             else Inl (JSONDecodeError ''Expecting property name enclosed in double quotes''))
      else if c = CHR ''['' then
        (case skip_ws cs of
           [] \<Rightarrow> Inl (JSONDecodeError ''Expecting value'')
         | d # ds \<Rightarrow> if d = CHR '']'' then Inr (PyList [], ds) else JSONArray n (d # ds) [])
      else if prefix ''null'' (c # cs) then Inr (PyNone, drop 3 cs)
      else if prefix ''true'' (c # cs) then Inr (PyBool True, drop 3 cs)
      else if prefix ''false'' (c # cs) then Inr (PyBool False, drop 4 cs)
      else
        (case match_number (c # cs) of
           Some r \<Rightarrow> Inr r
         | None \<Rightarrow>
             if prefix ''NaN'' (c # cs) then Inr (PyFloat NaN, drop 2 cs)
             else if prefix ''Infinity'' (c # cs) then Inr (PyFloat (Infinity False), drop 7 cs)
             else if prefix ''-Infinity'' (c # cs) then Inr (PyFloat (Infinity True), drop 8 cs)
             else Inl (JSONDecodeError ''Expecting value'')))"
| "JSONObject 0 s pairs = Inl RecursionError"
| "JSONObject (Suc n) s pairs =
     (case scanstring s of
        Inl e \<Rightarrow> Inl e
      | Inr (key, r1) \<Rightarrow>
          (case skip_ws r1 of
             [] \<Rightarrow> Inl (JSONDecodeError ''Expecting colon delimiter'')
           | c # r2 \<Rightarrow>
               if c \<noteq> CHR '':'' then Inl (JSONDecodeError ''Expecting colon delimiter'')
               else
                 (case scan_once n (skip_ws r2) of
                    Inl e \<Rightarrow> Inl e
                  | Inr (v, r3) \<Rightarrow>
                      (case skip_ws r3 of
                         [] \<Rightarrow> Inl (JSONDecodeError ''Expecting comma delimiter'')
                       | d # r4 \<Rightarrow>
                           if d = CHR ''}'' then Inr (dict (pairs @ [(PyStr key, v)]), r4)
                           else if d \<noteq> CHR '','' then
                             Inl (JSONDecodeError ''Expecting comma delimiter'')
                           else
                             (case skip_ws r4 of
                                [] \<Rightarrow>
                                  Inl (JSONDecodeError
                                    ''Expecting property name enclosed in double quotes'')
                              | q # r5 \<Rightarrow>
                                  if q = dquote
                                  then JSONObject n r5 (pairs @ [(PyStr key, v)])
                                  else Inl (JSONDecodeError
                                    ''Expecting property name enclosed in double quotes''))))))"
| "JSONArray 0 s items = Inl RecursionError"
| "JSONArray (Suc n) s items =
     (case scan_once n s of
        Inl e \<Rightarrow> Inl e
      | Inr (v, r1) \<Rightarrow>
          (case skip_ws r1 of
             [] \<Rightarrow> Inl (JSONDecodeError ''Expecting comma delimiter'')
           | d # r2 \<Rightarrow>
               if d = CHR '']'' then Inr (PyList (items @ [v]), r2)
               else if d \<noteq> CHR '','' then Inl (JSONDecodeError ''Expecting comma delimiter'')
               else JSONArray n (skip_ws r2) (items @ [v])))"

definition loads :: "string \<Rightarrow> py_error + py" where
  "loads s =
     (case scan_once (Suc (length s)) (skip_ws s) of
        Inl e \<Rightarrow> Inl e
      | Inr (obj, rest) \<Rightarrow>
          if skip_ws rest = [] then Inr obj else Inl (JSONDecodeError ''Extra data''))"

subsection \<open>The script\<close>

text \<open>The dictionary literal of the script, item by item in the order it is written.\<close>

definition erc1155_data :: py where
  "erc1155_data = PyDict [
     (PyStr ''wallet_cluster'', PyDict [
        (PyStr ''eoa'', PyStr ''0xcce2b7c71f21e358b8e5e797e586cbc03160d58b''),
        (PyStr ''proxy'', PyStr ''0xd59d03eeb0fd5979c702ba20bcc25da2ae1d9723''),
        (PyStr ''type'', PyStr ''Safe (proxy wallet)'')]),
     (PyStr ''erc1155_transfers'', PyDict [
        (PyStr ''total'', PyInt 249),
        (PyStr ''direction_breakdown'', PyDict [
           (PyStr ''to_eoa'', PyInt 180),
           (PyStr ''from_eoa'', PyInt 69)]),
        (PyStr ''time_range'', PyDict [
           (PyStr ''earliest'', PyStr ''2024-08-21 17:57:45''),
           (PyStr ''latest'', PyStr ''2025-10-30 20:58:09'')]),
        (PyStr ''monthly_breakdown'', PyDict [
           (PyStr ''2024-08'', PyInt 22),
           (PyStr ''2024-09'', PyInt 78),
           (PyStr ''2024-10'', PyInt 39),
           (PyStr ''2024-11'', PyInt 22),
           (PyStr ''2024-12'', PyInt 14),
           (PyStr ''2025-01'', PyInt 9),
           (PyStr ''2025-02'', PyInt 10),
           (PyStr ''2025-03'', PyInt 6),
           (PyStr ''2025-04'', PyInt 3),
           (PyStr ''2025-05'', PyInt 1),
           (PyStr ''2025-06'', PyInt 0),
           (PyStr ''2025-07'', PyInt 0),
           (PyStr ''2025-08'', PyInt 0),
           (PyStr ''2025-09'', PyInt 38),
           (PyStr ''2025-10'', PyInt 7)])]),
     (PyStr ''canonical_trades'', PyDict [
        (PyStr ''count'', PyStr ''UNKNOWN''),
        (PyStr ''total_usd_value'', PyStr ''UNKNOWN'')]),
     (PyStr ''polymarket_ui_volume'', PyFloat (decimal_to_float False 138385159 (- 2))),
     (PyStr ''pnl_v2_canonical_volume'', PyFloat (decimal_to_float False 22557234 (- 2))),
     (PyStr ''sample_transfers'', PyList [
        PyDict [
          (PyStr ''timestamp'', PyStr ''2025-10-30 20:58:09''),
          (PyStr ''direction'', PyStr ''OUTBOUND''),
          (PyStr ''tx_hash'',
           PyStr ''0xabffebff511763210395f59ba99ab3f186ca1ca973c333b4cf0d6803328217cb''),
          (PyStr ''value_hex'', PyStr ''0x12560fb0'')],
        PyDict [
          (PyStr ''timestamp'', PyStr ''2025-10-15 00:38:45''),
          (PyStr ''direction'', PyStr ''INBOUND''),
          (PyStr ''tx_hash'',
           PyStr ''0xd3ea4e87ebd74eb8c38df371e83fc9c90d3326c942d3831e88232ca971b47f65''),
          (PyStr ''value_hex'', PyStr ''0x3b9aca00'')]])]"

subsection \<open>The process\<close>

text \<open>
  The state of the process as far as the script can touch it: what has been written to
  standard output, one entry for each call of \<^verbatim>\<open>print\<close>, and the exit status once
  the interpreter has stopped. The arguments and the environment are there to be
  ignored: the script reads neither. Writing to standard output is taken to succeed.
\<close>

record process =
  argv :: "string list"
  environ :: "(string \<times> string) list"
  stdout :: "string list"
  exit_status :: "nat option"

text \<open>\<^verbatim>\<open>print(s)\<close>: the string and the line end \<^verbatim>\<open>end='\n'\<close>.\<close>

definition print :: "string \<Rightarrow> process \<Rightarrow> process" where
  "print s p = p\<lparr>stdout := stdout p @ [s @ [newline]]\<rparr>"

text \<open>
  The run of the script. Its last statement is the only one with an effect:
  \<^verbatim>\<open>print(json.dumps(erc1155_data, indent=2))\<close>. The argument is evaluated first; an
  exception there would reach the top level, where the interpreter exits with status 1
  and nothing printed. Otherwise the text is printed, the end of the script is reached
  and the status is 0.
\<close>

definition main :: "process \<Rightarrow> process" where
  "main p =
     (case dumps erc1155_data (Some 2) of
        Inl e \<Rightarrow> p\<lparr>exit_status := Some 1\<rparr>
      | Inr text \<Rightarrow> (print text p)\<lparr>exit_status := Some 0\<rparr>)"

text \<open>What a process has written to standard output, as one text.\<close>

definition written :: "process \<Rightarrow> string" where
  "written p = concat (stdout p)"

text \<open>A process that has not started yet.\<close>

definition fresh :: "string list \<Rightarrow> (string \<times> string) list \<Rightarrow> process" where
  "fresh args env = \<lparr>argv = args, environ = env, stdout = [], exit_status = None\<rparr>"

subsection \<open>Reading the literal\<close>

text \<open>
  The operations a test of the script's data would use: \<^verbatim>\<open>d[key]\<close> on a dictionary
  with string keys, a chain of them, \<^verbatim>\<open>d.keys()\<close>, \<^verbatim>\<open>d.values()\<close>, the items of a
  list and \<^verbatim>\<open>sum\<close> over integers.
\<close>

definition getitem :: "py \<Rightarrow> string \<Rightarrow> py_error + py" where
  "getitem d k =
     (case d of
        PyDict kvs \<Rightarrow>
          (case map_of kvs (PyStr k) of Some v \<Rightarrow> Inr v | None \<Rightarrow> Inl (KeyError k))
      | _ \<Rightarrow> Inl (TypeError ''object is not subscriptable''))"

fun getpath :: "py \<Rightarrow> string list \<Rightarrow> py_error + py" where
  "getpath d [] = Inr d"
| "getpath d (k # ks) = (case getitem d k of Inl e \<Rightarrow> Inl e | Inr v \<Rightarrow> getpath v ks)"

definition dict_keys :: "py \<Rightarrow> py list" where
  "dict_keys d = (case d of PyDict kvs \<Rightarrow> map fst kvs | _ \<Rightarrow> [])"

definition dict_values :: "py \<Rightarrow> py list" where
  "dict_values d = (case d of PyDict kvs \<Rightarrow> map snd kvs | _ \<Rightarrow> [])"

definition list_items :: "py \<Rightarrow> py list" where
  "list_items d = (case d of PyList xs \<Rightarrow> xs | PyTuple xs \<Rightarrow> xs | _ \<Rightarrow> [])"

fun py_sum :: "py list \<Rightarrow> py_error + int" where
  "py_sum [] = Inr 0"
| "py_sum (PyInt i # xs) = (case py_sum xs of Inl e \<Rightarrow> Inl e | Inr s \<Rightarrow> Inr (i + s))"
| "py_sum (x # xs) = Inl (TypeError ''unsupported operand type(s) for +'')"

text \<open>The string a lookup has found, if it found one.\<close>

definition str_value :: "py_error + py \<Rightarrow> string option" where
  "str_value r = (case r of Inr (PyStr s) \<Rightarrow> Some s | _ \<Rightarrow> None)"

text \<open>The parts of the literal the properties below are about.\<close>

definition erc1155_transfers :: "string list \<Rightarrow> py_error + py" where
  "erc1155_transfers path = getpath erc1155_data (''erc1155_transfers'' # path)"

definition sample_transfers :: "py list" where
  "sample_transfers =
     (case getitem erc1155_data ''sample_transfers'' of Inl e \<Rightarrow> [] | Inr v \<Rightarrow> list_items v)"

subsection \<open>The text of the report\<close>

text \<open>
  The text CPython prints for this literal, line by line: what \<^verbatim>\<open>json.dumps\<close> with
  \<^verbatim>\<open>indent=2\<close> returns, without the line end that \<^verbatim>\<open>print\<close> adds. It is
  the reference the encoder above is checked against.
\<close>

definition report_lines :: "string list" where
  \<open>report_lines =
    [''{'',
     ''  "wallet_cluster": {'',
     ''    "eoa": "0xcce2b7c71f21e358b8e5e797e586cbc03160d58b",'',
     ''    "proxy": "0xd59d03eeb0fd5979c702ba20bcc25da2ae1d9723",'',
     ''    "type": "Safe (proxy wallet)"'',
     ''  },'',
     ''  "erc1155_transfers": {'',
     ''    "total": 249,'',
     ''    "direction_breakdown": {'',
     ''      "to_eoa": 180,'',
     ''      "from_eoa": 69'',
     ''    },'',
     ''    "time_range": {'',
     ''      "earliest": "2024-08-21 17:57:45",'',
     ''      "latest": "2025-10-30 20:58:09"'',
     ''    },'',
     ''    "monthly_breakdown": {'',
     ''      "2024-08": 22,'',
     ''      "2024-09": 78,'',
     ''      "2024-10": 39,'',
     ''      "2024-11": 22,'',
     ''      "2024-12": 14,'',
     ''      "2025-01": 9,'',
     ''      "2025-02": 10,'',
     ''      "2025-03": 6,'',
     ''      "2025-04": 3,'',
     ''      "2025-05": 1,'',
     ''      "2025-06": 0,'',
     ''      "2025-07": 0,'',
     ''      "2025-08": 0,'',
     ''      "2025-09": 38,'',
     ''      "2025-10": 7'',
     ''    }'',
     ''  },'',
     ''  "canonical_trades": {'',
     ''    "count": "UNKNOWN",'',
     ''    "total_usd_value": "UNKNOWN"'',
     ''  },'',
     ''  "polymarket_ui_volume": 1383851.59,'',
     ''  "pnl_v2_canonical_volume": 225572.34,'',
     ''  "sample_transfers": ['',
     ''    {'',
     ''      "timestamp": "2025-10-30 20:58:09",'',
     ''      "direction": "OUTBOUND",'',
     ''      "tx_hash": "0xabffebff511763210395f59ba99ab3f186ca1ca973c333b4cf0d6803328217cb",'',
     ''      "value_hex": "0x12560fb0"'',
     ''    },'',
     ''    {'',
     ''      "timestamp": "2025-10-15 00:38:45",'',
     ''      "direction": "INBOUND",'',
     ''      "tx_hash": "0xd3ea4e87ebd74eb8c38df371e83fc9c90d3326c942d3831e88232ca971b47f65",'',
     ''      "value_hex": "0x3b9aca00"'',
     ''    }'',
     ''  ]'',
     ''}'']\<close>

text \<open>
  The same text cut along the values of the top-level dictionary, so that each value can
  be decoded on its own: the text of a value runs from its opening bracket to its
  closing bracket.
\<close>

definition wallet_cluster_text :: string where
  \<open>wallet_cluster_text = join [newline]
    [''{'',
     ''    "eoa": "0xcce2b7c71f21e358b8e5e797e586cbc03160d58b",'',
     ''    "proxy": "0xd59d03eeb0fd5979c702ba20bcc25da2ae1d9723",'',
     ''    "type": "Safe (proxy wallet)"'',
     ''  }'']\<close>

definition monthly_breakdown_text :: string where
  \<open>monthly_breakdown_text = join [newline]
    [''{'',
     ''      "2024-08": 22,'',
     ''      "2024-09": 78,'',
     ''      "2024-10": 39,'',
     ''      "2024-11": 22,'',
     ''      "2024-12": 14,'',
     ''      "2025-01": 9,'',
     ''      "2025-02": 10,'',
     ''      "2025-03": 6,'',
     ''      "2025-04": 3,'',
     ''      "2025-05": 1,'',
     ''      "2025-06": 0,'',
     ''      "2025-07": 0,'',
     ''      "2025-08": 0,'',
     ''      "2025-09": 38,'',
     ''      "2025-10": 7'',
     ''    }'']\<close>

definition erc1155_transfers_text :: string where
  \<open>erc1155_transfers_text = join [newline]
    [''{'',
     ''    "total": 249,'',
     ''    "direction_breakdown": {'',
     ''      "to_eoa": 180,'',
     ''      "from_eoa": 69'',
     ''    },'',
     ''    "time_range": {'',
     ''      "earliest": "2024-08-21 17:57:45",'',
     ''      "latest": "2025-10-30 20:58:09"'',
     ''    },'',
     ''    "monthly_breakdown": '' @ monthly_breakdown_text,
     ''  }'']\<close>

definition canonical_trades_text :: string where
  \<open>canonical_trades_text = join [newline]
    [''{'',
     ''    "count": "UNKNOWN",'',
     ''    "total_usd_value": "UNKNOWN"'',
     ''  }'']\<close>

definition sample_transfers_text :: string where
  \<open>sample_transfers_text = join [newline]
    [''['',
     ''    {'',
     ''      "timestamp": "2025-10-30 20:58:09",'',
     ''      "direction": "OUTBOUND",'',
     ''      "tx_hash": "0xabffebff511763210395f59ba99ab3f186ca1ca973c333b4cf0d6803328217cb",'',
     ''      "value_hex": "0x12560fb0"'',
     ''    },'',
     ''    {'',
     ''      "timestamp": "2025-10-15 00:38:45",'',
     ''      "direction": "INBOUND",'',
     ''      "tx_hash": "0xd3ea4e87ebd74eb8c38df371e83fc9c90d3326c942d3831e88232ca971b47f65",'',
     ''      "value_hex": "0x3b9aca00"'',
     ''    }'',
     ''  ]'']\<close>

definition report_text :: string where
  \<open>report_text = join [newline]
    [''{'',
     ''  "wallet_cluster": '' @ wallet_cluster_text @ '','',
     ''  "erc1155_transfers": '' @ erc1155_transfers_text @ '','',
     ''  "canonical_trades": '' @ canonical_trades_text @ '','',
     ''  "polymarket_ui_volume": 1383851.59,'',
     ''  "pnl_v2_canonical_volume": 225572.34,'',
     ''  "sample_transfers": '' @ sample_transfers_text,
     ''}'']\<close>

text \<open>Ten more calls for the decoder.\<close>

definition fuel10 :: "nat \<Rightarrow> nat" where
  "fuel10 n = Suc (Suc (Suc (Suc (Suc (Suc (Suc (Suc (Suc (Suc n)))))))))"

subsection \<open>Reading the text\<close>

text \<open>
  What the layout of the report means, read off its lines. The indentation of a line
  is the number of blanks it starts with and its content is what follows them. A line
  whose content starts with a closing bracket ends a nesting level, a line that ends
  with an opening bracket begins one. \<open>indented k d ls\<close> holds when every line of
  \<open>ls\<close> is indented by \<open>k\<close> blanks for each nesting level it lies in, starting at level
  \<open>d\<close> and ending at level 0.
\<close>

definition indent_of :: "string \<Rightarrow> nat" where
  "indent_of l = length (takeWhile (\<lambda>c. c = CHR '' '') l)"

definition content :: "string \<Rightarrow> string" where
  "content l = dropWhile (\<lambda>c. c = CHR '' '') l"

definition closes :: "string \<Rightarrow> bool" where
  "closes l = (case content l of [] \<Rightarrow> False | c # cs \<Rightarrow> c = CHR ''}'' \<or> c = CHR '']'')"

definition opens :: "string \<Rightarrow> bool" where
  "opens l = (case rev l of [] \<Rightarrow> False | c # cs \<Rightarrow> c = CHR ''{'' \<or> c = CHR ''['')"

fun indented :: "nat \<Rightarrow> nat \<Rightarrow> string list \<Rightarrow> bool" where
  "indented k d [] = (d = 0)"
| "indented k d (l # ls) =
     (if closes l
      then 0 < d \<and> indent_of l = k * (d - 1) \<and> indented k (d - 1) ls
      else indent_of l = k * d \<and> indented k (if opens l then Suc d else d) ls)"

text \<open>
  The key of a line, if the line is a member of a dictionary: the content starts with
  a quoted string followed by a colon and a blank. (No key of this report holds an
  escaped quote.) The value of a line is its content without the key and without the
  comma at the end.
\<close>

definition line_key :: "string \<Rightarrow> string option" where
  "line_key l =
     (case content l of
        [] \<Rightarrow> None
      | c # cs \<Rightarrow>
          if c = dquote \<and> prefix key_separator (drop (Suc (length (takeWhile (\<lambda>c. c \<noteq> dquote) cs))) cs)
          then Some (takeWhile (\<lambda>c. c \<noteq> dquote) cs)
          else None)"

definition strip_comma :: "string \<Rightarrow> string" where
  "strip_comma v = (case rev v of [] \<Rightarrow> [] | c # cs \<Rightarrow> if c = CHR '','' then rev cs else v)"

definition line_value :: "string \<Rightarrow> string" where
  "line_value l =
     strip_comma
       (case line_key l of
          None \<Rightarrow> content l
        | Some k \<Rightarrow> drop (length k + 4) (content l))"

text \<open>A value in double quotes, and what is between them; a value that starts a number.\<close>

definition line_string :: "string \<Rightarrow> string option" where
  "line_string l =
     (case line_value l of
        [] \<Rightarrow> None
      | c # cs \<Rightarrow>
          (case rev cs of
             [] \<Rightarrow> None
           | d # ds \<Rightarrow> if c = dquote \<and> d = dquote then Some (rev ds) else None))"

definition line_number :: "string \<Rightarrow> string option" where
  "line_number l =
     (case line_value l of
        [] \<Rightarrow> None
      | c # cs \<Rightarrow> if c = CHR ''-'' \<or> is_digit c then Some (c # cs) else None)"

text \<open>
  The members of a value in the order they are written: each item of a dictionary with
  its key, each item of a list without one, and after each item its own members.
\<close>

fun members :: "py \<Rightarrow> (string option \<times> py) list"
  and members_list :: "py list \<Rightarrow> (string option \<times> py) list"
  and members_dict :: "(py \<times> py) list \<Rightarrow> (string option \<times> py) list"
where
  "members (PyList xs) = members_list xs"
| "members (PyTuple xs) = members_list xs"
| "members (PyDict kvs) = members_dict kvs"
| "members PyNone = []"
| "members (PyBool b) = []"
| "members (PyInt i) = []"
| "members (PyFloat x) = []"
| "members (PyStr s) = []"
| "members (PyObject c) = []"
| "members_list [] = []"
| "members_list (x # xs) = (None, x) # members x @ members_list xs"
| "members_dict [] = []"
| "members_dict ((k, v) # kvs) =
     ((case key_str k of Inl e \<Rightarrow> None | Inr s \<Rightarrow> Some s), v) # members v @ members_dict kvs"

definition string_of :: "py \<Rightarrow> string option" where
  "string_of v = (case v of PyStr s \<Rightarrow> Some s | _ \<Rightarrow> None)"

subsection \<open>Timestamps and months\<close>

text \<open>The order of Python on strings: by code point, a proper prefix first.\<close>

fun str_le :: "string \<Rightarrow> string \<Rightarrow> bool" where
  "str_le [] ys = True"
| "str_le (x # xs) [] = False"
| "str_le (x # xs) (y # ys) =
     (if x = y then str_le xs ys else (of_char x :: nat) < of_char y)"

text \<open>
  The six numbers of a timestamp \<^verbatim>\<open>YYYY-MM-DD HH:MM:SS\<close>, and the order of time
  on them: by year, then month, day, hour, minute and second.
\<close>

definition timestamp_fields :: "string \<Rightarrow> nat list" where
  "timestamp_fields ts =
     map (\<lambda>(off, len). digits_value (take len (drop off ts)))
       [(0, 4), (5, 2), (8, 2), (11, 2), (14, 2), (17, 2)]"

fun chron_le :: "nat list \<Rightarrow> nat list \<Rightarrow> bool" where
  "chron_le [] ys = True"
| "chron_le (x # xs) [] = False"
| "chron_le (x # xs) (y # ys) = (if x = y then chron_le xs ys else x < y)"

text \<open>
  A timestamp lies between two others, in the order of strings and in the order of
  time; a timestamp that is missing lies nowhere.
\<close>

definition between :: "string option \<Rightarrow> string option \<Rightarrow> string option \<Rightarrow> bool" where
  "between lo ts hi =
     (case (lo, ts, hi) of
        (Some a, Some t, Some b) \<Rightarrow>
          str_le a t \<and> str_le t b
          \<and> chron_le (timestamp_fields a) (timestamp_fields t)
          \<and> chron_le (timestamp_fields t) (timestamp_fields b)
      | _ \<Rightarrow> False)"

text \<open>
  Calendar months counted from year 0: month \<open>m\<close> of year \<open>y\<close> has the index
  \<open>12 y + m - 1\<close>, so that consecutive months have consecutive indices. A month is
  written \<^verbatim>\<open>YYYY-MM\<close>.
\<close>

definition month_index :: "nat \<times> nat \<Rightarrow> nat" where
  "month_index ym = 12 * fst ym + (snd ym - 1)"

definition month_of_index :: "nat \<Rightarrow> nat \<times> nat" where
  "month_of_index i = (i div 12, i mod 12 + 1)"

definition month_key :: "nat \<times> nat \<Rightarrow> string" where
  "month_key ym =
     nat_str (fst ym) @ ''-'' @ (if snd ym < 10 then ''0'' else []) @ nat_str (snd ym)"

section \<open>Evaluating the encoder and the decoder\<close>

subsection \<open>The encoder on the literal\<close>

lemma replicate_numeral: "replicate (numeral k) x = x # replicate (pred_numeral k) x"
  by (simp add: numeral_eq_Suc)

lemmas float_simps =
  decimal_to_float_def binary64_round_def bit_length.simps shift2_def round_half_even_def
  Let_def floatstr_def float_repr_def shortest_digits.simps decimal_exponent_def
  ndigits.simps leading_zeros.simps shift10_def strip_zeros.simps format_repr_def
  nat_str_def digits_acc.simps digit_char_def

text \<open>The two float literals of the script, as binary64 numbers.\<close>

lemma polymarket_ui_volume_float:
  "decimal_to_float False 138385159 (- 2) = Finite False 5943597321567601 (- 32)"
  by (simp add: decimal_to_float_def binary64_round_def bit_length.simps shift2_def
      round_half_even_def Let_def)

lemma pnl_v2_canonical_volume_float:
  "decimal_to_float False 22557234 (- 2) = Finite False 7750606585457541 (- 35)"
  by (simp add: decimal_to_float_def binary64_round_def bit_length.simps shift2_def
      round_half_even_def Let_def)

text \<open>
  Their shortest numerals are the ones of the source: no numeral of fewer digits
  converts to the same float.
\<close>

lemma polymarket_ui_volume_repr:
  "floatstr (Finite False 5943597321567601 (- 32)) = ''1383851.59''"
  by (simp add: float_simps)

lemma pnl_v2_canonical_volume_repr:
  "floatstr (Finite False 7750606585457541 (- 35)) = ''225572.34''"
  by (simp add: float_simps)

lemmas encoder_simps =
  dumps_def bracketed_def newline_indent_def item_separator_def key_separator_def
  encode_basestring_ascii_def escape_char_def needs_escape_def backslash_def dquote_def
  int_repr_def nat_str_def digits_acc.simps digit_char_def newline_def replicate_numeral

text \<open>The encoder returns the text of the report.\<close>

lemma dumps_literal: "dumps erc1155_data (Some 2) = Inr (join [newline] report_lines)"
  by (simp add: erc1155_data_def polymarket_ui_volume_float pnl_v2_canonical_volume_float
      polymarket_ui_volume_repr pnl_v2_canonical_volume_repr encoder_simps report_lines_def)

lemma report_text_lines: "report_text = join [newline] report_lines"
  by (simp add: report_text_def report_lines_def wallet_cluster_text_def
      erc1155_transfers_text_def monthly_breakdown_text_def canonical_trades_text_def
      sample_transfers_text_def)

lemma report_text_length: "length report_text = 1351"
  by (simp add: report_text_lines report_lines_def)

lemma unlines_join:
  "ls \<noteq> [] \<Longrightarrow> join [newline] ls @ [newline] = concat (map (\<lambda>l. l @ [newline]) ls)"
  by (induction "[newline]" ls rule: join.induct) auto

text \<open>The encoder has a result on every serializable value.\<close>

lemma iterencode_total:
  "serializable v \<longrightarrow> (\<exists>t. iterencode indent lvl v = Inr t)"
  "serializable_list xs \<longrightarrow> (\<exists>ts. iterencode_list indent lvl xs = Inr ts)"
  "serializable_dict kvs \<longrightarrow> (\<exists>ts. iterencode_dict indent lvl kvs = Inr ts)"
  by (induction indent lvl v and indent lvl xs and indent lvl kvs
      rule: iterencode_iterencode_list_iterencode_dict.induct)
     (auto split: sum.splits, blast)

lemma serializable_literal: "serializable erc1155_data"
  by (simp add: erc1155_data_def)

subsection \<open>The decoder on the text\<close>

lemma skip_ws_Nil: "skip_ws [] = []"
  by (simp add: skip_ws_def)

lemma skip_ws_Cons: "skip_ws (c # cs) = (if is_whitespace c then skip_ws cs else c # cs)"
  by (simp add: skip_ws_def)

lemmas decoder_simps =
  loads_def skip_ws_Nil skip_ws_Cons is_whitespace_def is_digit_def digits_value_def
  match_number_def match_sign_def match_integer_def match_frac_def match_exp_def
  dict_def dquote_def backslash_def newline_def Let_def

text \<open>
  Each value of the top-level dictionary is decoded from its own text, whatever follows
  it: the decoder stops at the closing bracket. The text starts with a bracket, so
  there is no white space to skip.
\<close>

lemma wallet_cluster_scan:
  "scan_once (fuel10 n) (wallet_cluster_text @ rest) =
     map_sum id (\<lambda>v. (v, rest)) (getitem erc1155_data ''wallet_cluster'')"
  by (simp add: fuel10_def wallet_cluster_text_def decoder_simps erc1155_data_def getitem_def)

lemma wallet_cluster_ws: "skip_ws (wallet_cluster_text @ rest) = wallet_cluster_text @ rest"
  by (simp add: wallet_cluster_text_def decoder_simps)

lemma monthly_breakdown_scan:
  "scan_once (fuel10 (fuel10 n)) (monthly_breakdown_text @ rest) =
     map_sum id (\<lambda>v. (v, rest)) (erc1155_transfers [''monthly_breakdown''])"
  by (simp add: fuel10_def monthly_breakdown_text_def decoder_simps erc1155_data_def
      getitem_def erc1155_transfers_def)

lemma monthly_breakdown_ws:
  "skip_ws (monthly_breakdown_text @ rest) = monthly_breakdown_text @ rest"
  by (simp add: monthly_breakdown_text_def decoder_simps)

lemma erc1155_transfers_scan:
  "scan_once (fuel10 (fuel10 (fuel10 n))) (erc1155_transfers_text @ rest) =
     map_sum id (\<lambda>v. (v, rest)) (getitem erc1155_data ''erc1155_transfers'')"
  by (simp add: fuel10_def erc1155_transfers_text_def decoder_simps
      monthly_breakdown_scan [unfolded fuel10_def] monthly_breakdown_ws
      erc1155_data_def getitem_def erc1155_transfers_def)

lemma erc1155_transfers_ws:
  "skip_ws (erc1155_transfers_text @ rest) = erc1155_transfers_text @ rest"
  by (simp add: erc1155_transfers_text_def decoder_simps)

lemma canonical_trades_scan:
  "scan_once (fuel10 n) (canonical_trades_text @ rest) =
     map_sum id (\<lambda>v. (v, rest)) (getitem erc1155_data ''canonical_trades'')"
  by (simp add: fuel10_def canonical_trades_text_def decoder_simps erc1155_data_def
      getitem_def)

lemma canonical_trades_ws:
  "skip_ws (canonical_trades_text @ rest) = canonical_trades_text @ rest"
  by (simp add: canonical_trades_text_def decoder_simps)

lemma sample_transfers_scan:
  "scan_once (fuel10 (fuel10 n)) (sample_transfers_text @ rest) =
     map_sum id (\<lambda>v. (v, rest)) (getitem erc1155_data ''sample_transfers'')"
  by (simp add: fuel10_def sample_transfers_text_def decoder_simps erc1155_data_def
      getitem_def)

lemma sample_transfers_ws:
  "skip_ws (sample_transfers_text @ rest) = sample_transfers_text @ rest"
  by (simp add: sample_transfers_text_def decoder_simps)

text \<open>The whole text, with fifty calls to spare.\<close>

lemma report_text_ws: "skip_ws (report_text @ rest) = report_text @ rest"
  by (simp add: report_text_def decoder_simps)

lemma report_text_scan:
  "scan_once (fuel10 (fuel10 (fuel10 (fuel10 (fuel10 n))))) (report_text @ rest) =
     Inr (erc1155_data, rest)"
  by (simp add: fuel10_def report_text_def decoder_simps
      wallet_cluster_scan [unfolded fuel10_def] wallet_cluster_ws
      erc1155_transfers_scan [unfolded fuel10_def] erc1155_transfers_ws
      canonical_trades_scan [unfolded fuel10_def] canonical_trades_ws
      sample_transfers_scan [unfolded fuel10_def] sample_transfers_ws
      erc1155_data_def getitem_def)

text \<open>
  \<^verbatim>\<open>loads\<close> on the text, with and without the line end of \<^verbatim>\<open>print\<close>: the
  length of the text is more than enough for the calls the decoder makes.
\<close>

lemma loads_report_text: "loads report_text = Inr erc1155_data"
proof -
  have "Suc (length report_text) = fuel10 (fuel10 (fuel10 (fuel10 (fuel10 1302))))"
    by (simp add: report_text_length fuel10_def)
  moreover have "skip_ws report_text = report_text"
    using report_text_ws [of "[]"] by simp
  moreover have "scan_once (fuel10 (fuel10 (fuel10 (fuel10 (fuel10 1302))))) report_text
      = Inr (erc1155_data, [])"
    using report_text_scan [of 1302 "[]"] by simp
  ultimately show ?thesis
    by (simp add: loads_def skip_ws_Nil)
qed

lemma loads_report_text_newline: "loads (report_text @ [newline]) = Inr erc1155_data"
proof -
  have "Suc (length (report_text @ [newline])) =
          fuel10 (fuel10 (fuel10 (fuel10 (fuel10 1303))))"
    by (simp add: report_text_length fuel10_def)
  then show ?thesis
    by (simp add: loads_def report_text_ws report_text_scan skip_ws_Nil skip_ws_Cons
        is_whitespace_def newline_def)
qed

subsection \<open>The run of the script\<close>

lemma main_eq: "main p = (print (join [newline] report_lines) p)\<lparr>exit_status := Some 0\<rparr>"
  by (simp add: main_def dumps_literal)

lemma stdout_main: "stdout (main p) = stdout p @ [join [newline] report_lines @ [newline]]"
  by (simp add: main_eq print_def)

lemma written_fresh: "written (main (fresh args env)) = report_text @ [newline]"
  by (simp add: written_def stdout_main fresh_def report_text_lines)

lemma written_fresh_lines:
  "written (main (fresh args env)) = concat (map (\<lambda>l. l @ [newline]) report_lines)"
  by (simp add: written_fresh report_text_lines unlines_join report_lines_def)

lemmas literal_simps =
  erc1155_transfers_def erc1155_data_def getitem_def sample_transfers_def
  dict_values_def dict_keys_def list_items_def

lemmas line_simps =
  indent_of_def content_def closes_def opens_def line_key_def line_value_def line_string_def
  line_number_def strip_comma_def key_separator_def dquote_def is_digit_def

section \<open>The properties of the specification\<close>

text \<open>
  C1. The whole text the script writes to standard output parses as JSON, and the
  value parsed is the literal \<^verbatim>\<open>erc1155_data\<close> itself, every field, nesting and
  element: \<^verbatim>\<open>loads(dumps(erc1155_data))\<close> is \<^verbatim>\<open>erc1155_data\<close>, for the text
  returned by \<^verbatim>\<open>json.dumps\<close> and for the text printed, with its line end.
\<close>

theorem report_round_trip:
  "(case dumps erc1155_data (Some 2) of
      Inl e \<Rightarrow> False
    | Inr t \<Rightarrow> loads t = Inr erc1155_data)
   \<and> loads (written (main (fresh args env))) = Inr erc1155_data"
  by (simp add: dumps_literal written_fresh loads_report_text loads_report_text_newline
      report_text_lines [symmetric])

text \<open>
  C2. The text written is pretty-printed JSON: it consists of the lines
  \<open>report_lines\<close>, each ended by a line break, so that the output ends with a line
  break; every line is indented by two blanks for each nesting level; the keys appear
  in the order in which the literal declares them; the numbers are plain decimal
  numerals, the integers without a point and the floats with the digits of the source
  and no exponent; and every string of the literal appears between double quotes.
\<close>

theorem report_layout:
  "written (main (fresh args env)) = concat (map (\<lambda>l. l @ [newline]) report_lines)
   \<and> last (written (main (fresh args env))) = newline
   \<and> indented 2 0 report_lines
   \<and> List.map_filter line_key report_lines = List.map_filter fst (members erc1155_data)
   \<and> List.map_filter line_number report_lines =
       [''249'', ''180'', ''69'', ''22'', ''78'', ''39'', ''22'', ''14'', ''9'', ''10'', ''6'',
        ''3'', ''1'', ''0'', ''0'', ''0'', ''38'', ''7'', ''1383851.59'', ''225572.34'']
   \<and> List.map_filter line_string report_lines =
       List.map_filter (string_of \<circ> snd) (members erc1155_data)"
proof -
  have "last (written (main (fresh args env))) = newline"
    by (simp add: written_fresh)
  moreover have "indented 2 0 report_lines"
    by (simp add: report_lines_def line_simps)
  moreover have
    "List.map_filter line_key report_lines = List.map_filter fst (members erc1155_data)"
    by (simp add: report_lines_def line_simps erc1155_data_def)
  moreover have "List.map_filter line_number report_lines =
       [''249'', ''180'', ''69'', ''22'', ''78'', ''39'', ''22'', ''14'', ''9'', ''10'', ''6'',
        ''3'', ''1'', ''0'', ''0'', ''0'', ''38'', ''7'', ''1383851.59'', ''225572.34'']"
    by (simp add: report_lines_def line_simps)
  moreover have "List.map_filter line_string report_lines =
       List.map_filter (string_of \<circ> snd) (members erc1155_data)"
    by (simp add: report_lines_def line_simps erc1155_data_def string_of_def)
  ultimately show ?thesis
    using written_fresh_lines by blast
qed

text \<open>
  C3. In the literal, \<^verbatim>\<open>direction_breakdown.to_eoa\<close> is 180,
  \<^verbatim>\<open>direction_breakdown.from_eoa\<close> is 69, and their sum is
  \<^verbatim>\<open>erc1155_transfers.total\<close>, which is 249.
\<close>

theorem direction_breakdown_adds_up_to_total:
  "erc1155_transfers [''direction_breakdown'', ''to_eoa''] = Inr (PyInt 180)
   \<and> erc1155_transfers [''direction_breakdown'', ''from_eoa''] = Inr (PyInt 69)
   \<and> erc1155_transfers [''total''] = Inr (PyInt (180 + 69))
   \<and> erc1155_transfers [''total''] = Inr (PyInt 249)"
  by (simp add: literal_simps)

text \<open>
  C4. \<^verbatim>\<open>erc1155_transfers.monthly_breakdown\<close> of the literal has fifteen values, all
  integers, and their sum is exactly 249.
\<close>

theorem monthly_breakdown_sums_to_249:
  "(case erc1155_transfers [''monthly_breakdown''] of
      Inl e \<Rightarrow> False
    | Inr d \<Rightarrow> length (dict_values d) = 15 \<and> py_sum (dict_values d) = Inr 249)"
  by (simp add: literal_simps)

text \<open>
  C5. Two runs of the script write the same bytes: what a run writes does not depend
  on the arguments or the environment of the process, and a second run in succession
  writes again exactly what the first one wrote.
\<close>

theorem report_deterministic:
  "written (main (fresh args env)) = written (main (fresh args' env'))
   \<and> (\<exists>w. stdout (main p) = stdout p @ [w] \<and> stdout (main (main p)) = stdout p @ [w, w])"
  by (simp add: written_fresh stdout_main)

text \<open>
  C6. \<^verbatim>\<open>sample_transfers\<close> of the literal has two entries, and the
  \<^verbatim>\<open>direction\<close> of every entry is one of the strings \<^verbatim>\<open>INBOUND\<close> and
  \<^verbatim>\<open>OUTBOUND\<close>.
\<close>

theorem sample_transfers_direction_restricted:
  "length sample_transfers = 2
   \<and> (\<forall>t \<in> set sample_transfers.
         getitem t ''direction'' \<in> {Inr (PyStr ''INBOUND''), Inr (PyStr ''OUTBOUND'')})"
  by (simp add: literal_simps)

theorem sample_transfers_direction_restricted_witness:
  "sample_transfers ! 1 \<in> set sample_transfers
   \<and> getitem (sample_transfers ! 1) ''direction'' = Inr (PyStr ''INBOUND'')"
proof -
  have mem: "sample_transfers ! 1 \<in> set sample_transfers"
    by (simp add: literal_simps)
  have "getitem (sample_transfers ! 1) ''direction''
          \<in> {Inr (PyStr ''INBOUND''), Inr (PyStr ''OUTBOUND'')}"
    using sample_transfers_direction_restricted mem by blast
  moreover have "getitem (sample_transfers ! 1) ''direction'' \<noteq> Inr (PyStr ''OUTBOUND'')"
    by (simp add: literal_simps)
  ultimately show ?thesis using mem by blast
qed

text \<open>
  C7. The first line of the text written is the single character \<^verbatim>\<open>{\<close>, and the
  text contains \<^verbatim>\<open>"total": 249\<close>.
\<close>

theorem report_first_line_and_total:
  \<open>takeWhile (\<lambda>c. c \<noteq> newline) (written (main (fresh args env))) = ''{''
   \<and> sublist ''"total": 249'' (written (main (fresh args env)))\<close>
proof -
  have \<open>concat (map (\<lambda>l. l @ [newline]) report_lines) =
      (concat (map (\<lambda>l. l @ [newline]) (take 7 report_lines)) @ ''    '')
      @ ''"total": 249''
      @ ('','' @ [newline] @ concat (map (\<lambda>l. l @ [newline]) (drop 8 report_lines)))\<close>
    by (simp add: report_lines_def)
  then have \<open>sublist ''"total": 249'' (concat (map (\<lambda>l. l @ [newline]) report_lines))\<close>
    by (metis sublist_appendI)
  moreover have
    "takeWhile (\<lambda>c. c \<noteq> newline) (concat (map (\<lambda>l. l @ [newline]) report_lines)) = ''{''"
    by (simp add: report_lines_def newline_def)
  ultimately show ?thesis
    by (simp add: written_fresh_lines)
qed

text \<open>
  C8. Serializing the literal cannot fail: the literal is a serializable value, so
  \<^verbatim>\<open>json.dumps\<close> returns a text and raises nothing. The run then writes to standard
  output exactly once and ends with the exit status of success.
\<close>

theorem report_never_fails:
  "serializable erc1155_data
   \<and> (\<exists>t. dumps erc1155_data (Some 2) = Inr t)
   \<and> length (stdout (main p)) = Suc (length (stdout p))
   \<and> exit_status (main p) = Some 0"
  using iterencode_total(1) [of erc1155_data "Some 2" 0]
  by (simp add: serializable_literal dumps_def stdout_main main_eq print_def)

text \<open>
  C9. The timestamp of the first entry of \<^verbatim>\<open>sample_transfers\<close> is
  \<^verbatim>\<open>time_range.latest\<close>, \<^verbatim>\<open>2025-10-30 20:58:09\<close>, and the timestamp of every
  entry lies between \<^verbatim>\<open>time_range.earliest\<close> and \<^verbatim>\<open>time_range.latest\<close>, both
  included, in the order of strings and, the same here, in the order of time.
\<close>

theorem sample_timestamps_within_time_range:
  "str_value (getitem (sample_transfers ! 0) ''timestamp'') = Some ''2025-10-30 20:58:09''
   \<and> str_value (erc1155_transfers [''time_range'', ''latest'']) = Some ''2025-10-30 20:58:09''
   \<and> (\<forall>t \<in> set sample_transfers.
         between (str_value (erc1155_transfers [''time_range'', ''earliest'']))
           (str_value (getitem t ''timestamp''))
           (str_value (erc1155_transfers [''time_range'', ''latest''])))"
  by (simp add: literal_simps between_def str_value_def timestamp_fields_def digits_value_def)

theorem sample_timestamps_within_time_range_witness:
  "sample_transfers ! 1 \<in> set sample_transfers
   \<and> between (str_value (erc1155_transfers [''time_range'', ''earliest'']))
       (Some ''2025-10-15 00:38:45'')
       (str_value (erc1155_transfers [''time_range'', ''latest'']))"
proof -
  have mem: "sample_transfers ! 1 \<in> set sample_transfers"
    by (simp add: literal_simps)
  have "between (str_value (erc1155_transfers [''time_range'', ''earliest'']))
          (str_value (getitem (sample_transfers ! 1) ''timestamp''))
          (str_value (erc1155_transfers [''time_range'', ''latest'']))"
    using sample_timestamps_within_time_range mem by blast
  moreover have
    "str_value (getitem (sample_transfers ! 1) ''timestamp'') = Some ''2025-10-15 00:38:45''"
    by (simp add: literal_simps str_value_def)
  ultimately show ?thesis using mem by simp
qed

text \<open>
  C10. The keys of \<^verbatim>\<open>monthly_breakdown\<close> are the fifteen consecutive calendar
  months from \<^verbatim>\<open>2024-08\<close> to \<^verbatim>\<open>2025-10\<close>, in that order and without a gap; the
  months \<^verbatim>\<open>2025-06\<close>, \<^verbatim>\<open>2025-07\<close> and \<^verbatim>\<open>2025-08\<close> are there with the count 0;
  and the first and the last of the months are the months of
  \<^verbatim>\<open>time_range.earliest\<close> and \<^verbatim>\<open>time_range.latest\<close>.
\<close>

theorem monthly_breakdown_months_complete:
  "(case erc1155_transfers [''monthly_breakdown''] of
      Inl e \<Rightarrow> False
    | Inr d \<Rightarrow>
        dict_keys d =
          map (\<lambda>i. PyStr (month_key (month_of_index i)))
            [month_index (2024, 8) ..< month_index (2024, 8) + 15]
        \<and> month_of_index (month_index (2024, 8) + 14) = (2025, 10)
        \<and> getitem d ''2025-06'' = Inr (PyInt 0)
        \<and> getitem d ''2025-07'' = Inr (PyInt 0)
        \<and> getitem d ''2025-08'' = Inr (PyInt 0)
        \<and> map_option (take 7) (str_value (erc1155_transfers [''time_range'', ''earliest'']))
            = Some (month_key (2024, 8))
        \<and> map_option (take 7) (str_value (erc1155_transfers [''time_range'', ''latest'']))
            = Some (month_key (2025, 10)))"
  by (simp add: literal_simps str_value_def month_index_def month_of_index_def month_key_def
      nat_str_def digits_acc.simps digit_char_def)

end
